theory Spec2Isabelle
  imports Complex_Main
begin

section \<open>Conventions of the embedding\<close>

text \<open>
  The development embeds the learning-rate schedulers of \<^verbatim>\<open>tabpfn/utils.py\<close> and the
  run driver \<^verbatim>\<open>main\<close> of \<^verbatim>\<open>tabpfn/fit_model.py\<close> and \<^verbatim>\<open>mothernet/fit_model.py\<close>.

  \<^item> Python \<^verbatim>\<open>int\<close> is \<^typ>\<open>int\<close>; \<^verbatim>\<open>%\<close> and \<^verbatim>\<open>//\<close> are \<open>mod\<close> and \<open>div\<close>
    (both floor), with the division by zero that Python raises written out.
  \<^item> Python \<^verbatim>\<open>float\<close> is \<^typ>\<open>real\<close>: rounding, infinities and NaN are idealised away.
    The one place where the source meets NaN on ordinary input (the mean of an empty
    window) is written out.
  \<^item> An exception is a value of \<open>error\<close>. A function that only raises returns
    \<open>error + 'a\<close>; a method that mutates an object before it may raise returns the
    object as it is left together with \<open>error option\<close>.
  \<^item> Printing is not modelled.
\<close>

datatype error =
    AssertionError | ZeroDivisionError | ValueError | TypeError | NameError
  | AttributeError | IndexError | KeyError | OSError | ExternalError

section \<open>Restart-cosine schedule (\<^verbatim>\<open>get_restarting_cosine_schedule_with_warmup\<close>)\<close>

text \<open>
  \<^verbatim>\<open>inner_lr_lambda(current_step, num_warmup_steps, num_training_steps)\<close>, with the
  enclosing function's \<^verbatim>\<open>num_cycles\<close> as a first argument.
\<close>

definition inner_lr_lambda :: "real \<Rightarrow> int \<Rightarrow> int \<Rightarrow> int \<Rightarrow> real" where
  "inner_lr_lambda num_cycles current_step num_warmup_steps num_training_steps =
     (if current_step < num_warmup_steps
      then of_int current_step / of_int (max 1 num_warmup_steps)
      else
        let progress = of_int (current_step - num_warmup_steps)
                       / of_int (max 1 (num_training_steps - num_warmup_steps))
        in max 0 (0.5 * (1 + cos (pi * num_cycles * 2 * progress))))"

text \<open>
  \<^verbatim>\<open>lr_lambda(current_step)\<close>, the closure handed to \<^verbatim>\<open>LambdaLR\<close>; its captured
  variables are the leading arguments. \<^verbatim>\<open>current_step % steps_per_restart\<close> raises
  for a zero period.
\<close>

definition lr_lambda :: "int \<Rightarrow> int \<Rightarrow> real \<Rightarrow> int \<Rightarrow> error + real" where
  "lr_lambda num_warmup_steps steps_per_restart num_cycles current_step =
     (if steps_per_restart = 0 then Inl ZeroDivisionError
      else
        let inner_step = current_step mod steps_per_restart
        in Inr (inner_lr_lambda num_cycles inner_step
                  (if current_step < steps_per_restart then num_warmup_steps else 0)
                  steps_per_restart))"

text \<open>
  The constructor: the \<^verbatim>\<open>assert\<close> on line 37 first evaluates
  \<^verbatim>\<open>num_training_steps % steps_per_restart\<close>. The returned scheduler is represented
  by its multiplier function (\<^verbatim>\<open>LambdaLR\<close> itself is library code).
\<close>

definition get_restarting_cosine_schedule_with_warmup ::
  "int \<Rightarrow> int \<Rightarrow> int \<Rightarrow> real \<Rightarrow> error + (int \<Rightarrow> error + real)" where
  "get_restarting_cosine_schedule_with_warmup num_warmup_steps num_training_steps
       steps_per_restart num_cycles =
     (if steps_per_restart = 0 then Inl ZeroDivisionError
      else if num_training_steps mod steps_per_restart \<noteq> 0 then Inl AssertionError
      else Inr (lr_lambda num_warmup_steps steps_per_restart num_cycles))"

section \<open>Reduce-on-spike scheduler (class \<^verbatim>\<open>ReduceLROnSpike\<close>)\<close>

text \<open>
  A parameter group of the optimizer is a dictionary; the scheduler reads and writes
  its \<^verbatim>\<open>'lr'\<close> entry only.
\<close>

record param_group =
  lr :: real

text \<open>
  The attributes of a scheduler object. \<open>optimizer\<close> holds the wrapped optimizer's
  \<^verbatim>\<open>param_groups\<close>, which \<^verbatim>\<open>_reduce_lr\<close> mutates in place. \<open>recent_loses\<close> and
  \<open>last_lr\<close> (\<^verbatim>\<open>_last_lr\<close>) are attributes that \<^verbatim>\<open>step\<close> creates; \<open>None\<close> is
  an attribute that does not exist yet.
\<close>

record ReduceLROnSpike =
  optimizer :: "param_group list"
  factor :: real
  min_lrs :: "real list"
  smoothing :: int
  verbose :: bool
  mode :: string
  eps :: real
  last_epoch :: int
  recent_losses :: "real list"
  recent_loses :: "real list option"
  last_lr :: "real list option"

text \<open>\<^verbatim>\<open>np.mean\<close> and \<^verbatim>\<open>np.std\<close> (population standard deviation) of a list.\<close>

definition np_mean :: "real list \<Rightarrow> real" where
  "np_mean xs = sum_list xs / real (length xs)"

definition np_std :: "real list \<Rightarrow> real" where
  "np_std xs = sqrt (np_mean (map (\<lambda>x. \<bar>x - np_mean xs\<bar> ^ 2) xs))"

text \<open>
  The test of line 467, \<^verbatim>\<open>np.abs(np.mean(w) - current) > np.std(w)\<close>. On an empty
  list numpy returns NaN for both, and a comparison with NaN is false.
\<close>

definition loss_looks_bad :: "real list \<Rightarrow> real \<Rightarrow> bool" where
  "loss_looks_bad w current = (w \<noteq> [] \<and> \<bar>np_mean w - current\<bar> > np_std w)"

text \<open>
  The loop of \<^verbatim>\<open>_reduce_lr\<close> over \<^verbatim>\<open>enumerate(self.optimizer.param_groups)\<close>, from
  index \<open>i\<close> on. \<^verbatim>\<open>self.min_lrs[i]\<close> raises when the list is too short; the groups
  before \<open>i\<close> have been updated by then.
\<close>

fun reduce_groups ::
  "real \<Rightarrow> real list \<Rightarrow> real \<Rightarrow> nat \<Rightarrow> param_group list \<Rightarrow> param_group list \<times> error option" where
  "reduce_groups fac mins e i [] = ([], None)"
| "reduce_groups fac mins e i (param_group # rest) =
     (if length mins \<le> i then (param_group # rest, Some IndexError)
      else
        let old_lr = lr param_group;
            new_lr = max (old_lr * fac) (mins ! i);
            param_group' = (if old_lr - new_lr > e then param_group\<lparr>lr := new_lr\<rparr>
                            else param_group);
            (rest', raised) = reduce_groups fac mins e (Suc i) rest
        in (param_group' # rest', raised))"

definition reduce_lr :: "ReduceLROnSpike \<Rightarrow> ReduceLROnSpike \<times> error option" where
  "reduce_lr self =
     (let (groups, raised) =
            reduce_groups (factor self) (min_lrs self) (eps self) 0 (optimizer self)
      in (self\<lparr>optimizer := groups\<rparr>, raised))"

text \<open>
  \<^verbatim>\<open>step(metrics)\<close>. The last branch assigns \<^verbatim>\<open>self.recent_loses\<close> (line 475), a
  different attribute from \<^verbatim>\<open>self.recent_losses\<close>.
\<close>

definition step :: "ReduceLROnSpike \<Rightarrow> real \<Rightarrow> ReduceLROnSpike \<times> error option" where
  "step self metrics =
     (let current = metrics;
          epoch = last_epoch self + 1;
          self = self\<lparr>last_epoch := epoch\<rparr>
      in if int (length (recent_losses self)) < smoothing self
         then (self\<lparr>recent_losses := recent_losses self @ [current]\<rparr>, None)
         else if loss_looks_bad (recent_losses self) current
         then (case reduce_lr self of
                 (self, Some err) \<Rightarrow> (self, Some err)
               | (self, None) \<Rightarrow>
                   (self\<lparr>recent_losses := [],
                         last_lr := Some (map lr (optimizer self))\<rparr>, None))
         else (self\<lparr>recent_loses := Some (drop 1 (recent_losses self) @ [current]),
                    last_lr := Some (map lr (optimizer self))\<rparr>, None))"

text \<open>A sequence of \<^verbatim>\<open>step\<close> calls; an exception ends it.\<close>

fun steps :: "ReduceLROnSpike \<Rightarrow> real list \<Rightarrow> ReduceLROnSpike \<times> error option" where
  "steps self [] = (self, None)"
| "steps self (metrics # later) =
     (case step self metrics of
        (self', Some err) \<Rightarrow> (self', Some err)
      | (self', None) \<Rightarrow> steps self' later)"

subsection \<open>The constructor\<close>

text \<open>
  The \<^verbatim>\<open>optimizer\<close> argument is any object; \<^verbatim>\<open>isinstance(optimizer, Optimizer)\<close>
  tells the two cases apart. \<^verbatim>\<open>min_lr\<close> is a scalar, or a list or tuple.
\<close>

datatype optimizer_arg = AnOptimizer "param_group list" | NotAnOptimizer

datatype min_lr_arg = Scalar real | Sequence "real list"

text \<open>
  Name resolution inside \<^verbatim>\<open>__init__\<close>: a name is looked up among the function's
  parameters, then among the names bound at the top level of \<^verbatim>\<open>utils.py\<close> (its
  imports, functions, classes and \<^verbatim>\<open>default_device\<close>), then among Python's builtins.
  The builtins are not listed; neither \<^verbatim>\<open>threshold\<close> nor \<^verbatim>\<open>threshold_mode\<close> is
  one of them.
\<close>

definition init_parameters :: "string list" where
  "init_parameters =
     [''self'', ''optimizer'', ''mode'', ''factor'', ''smoothing'', ''min_lr'', ''eps'',
      ''verbose'']"

definition utils_globals :: "string list" where
  "utils_globals =
     [''os'', ''math'', ''argparse'', ''random'', ''datetime'', ''itertools'', ''glob'',
      ''re'', ''torch'', ''nn'', ''LambdaLR'', ''np'', ''pd'', ''convolve'', ''windows'',
      ''Optimizer'', ''get_cosine_schedule_with_warmup'',
      ''get_restarting_cosine_schedule_with_warmup'', ''get_linear_schedule_with_warmup'',
      ''get_openai_lr'', ''get_weighted_single_eval_pos_sampler'',
      ''get_uniform_single_eval_pos_sampler'', ''SeqBN'', ''set_locals_in_self'',
      ''default_device'', ''StoreDictKeyPair'', ''get_nan_value'', ''to_ranking'',
      ''to_ranking_low_mem'', ''nan_handling_missing_for_unknown_reason_value'',
      ''nan_handling_missing_for_no_reason_value'',
      ''nan_handling_missing_for_a_reason_value'', ''torch_nanmean'', ''torch_nanstd'',
      ''normalize_data'', ''remove_outliers'', ''bool_mask_to_att_mask'',
      ''print_on_master_only'', ''init_dist'', ''NOP'', ''check_compatibility'',
      ''product_dict'', ''normalize_by_used_features_f'', ''compare_dicts'',
      ''get_latest_losses'', ''make_long_loss_df'', ''ReduceLROnSpike'']"

definition bound_in_init :: "string \<Rightarrow> bool" where
  "bound_in_init name = (name \<in> set init_parameters \<or> name \<in> set utils_globals)"

text \<open>The methods the class defines (it has no base class but \<^verbatim>\<open>object\<close>).\<close>

definition ReduceLROnSpike_methods :: "string list" where
  "ReduceLROnSpike_methods =
     [''__init__'', ''step'', ''_reduce_lr'', ''state_dict'', ''load_state_dict'']"

text \<open>
  \<^verbatim>\<open>__init__(self, optimizer, mode, factor, smoothing, min_lr, eps, verbose)\<close>, in the
  order of its statements: the check of \<^verbatim>\<open>factor\<close>, the check of the optimizer, the
  minimum rates, then the assignments of lines 445 to 452, of which line 448 reads
  \<^verbatim>\<open>threshold\<close> and line 449 \<^verbatim>\<open>threshold_mode\<close>, then the calls of
  \<^verbatim>\<open>self._init_is_better\<close> and \<^verbatim>\<open>self._reset\<close>.
\<close>

definition ReduceLROnSpike_init ::
  "optimizer_arg \<Rightarrow> string \<Rightarrow> real \<Rightarrow> int \<Rightarrow> min_lr_arg \<Rightarrow> real \<Rightarrow> bool
     \<Rightarrow> error + ReduceLROnSpike" where
  "ReduceLROnSpike_init optimizer_a mode_a factor_a smoothing_a min_lr eps_a verbose_a =
     (if factor_a \<ge> 1 then Inl ValueError
      else case optimizer_a of
        NotAnOptimizer \<Rightarrow> Inl TypeError
      | AnOptimizer param_groups \<Rightarrow>
          (case (case min_lr of
                   Sequence ms \<Rightarrow>
                     if length ms \<noteq> length param_groups then Inl ValueError else Inr ms
                 | Scalar m \<Rightarrow> Inr (replicate (length param_groups) m)) of
             Inl err \<Rightarrow> Inl err
           | Inr mins \<Rightarrow>
               if \<not> bound_in_init ''threshold'' then Inl NameError
               else if \<not> bound_in_init ''threshold_mode'' then Inl NameError
               else if ''_init_is_better'' \<notin> set ReduceLROnSpike_methods
               then Inl AttributeError
               else if ''_reset'' \<notin> set ReduceLROnSpike_methods then Inl AttributeError
               else Inr \<lparr>optimizer = param_groups, factor = factor_a, min_lrs = mins,
                         smoothing = smoothing_a, verbose = verbose_a, mode = mode_a,
                         eps = eps_a, last_epoch = 0, recent_losses = [],
                         recent_loses = None, last_lr = None\<rparr>))"

section \<open>The run driver (\<^verbatim>\<open>main\<close> of \<^verbatim>\<open>fit_model.py\<close>)\<close>

subsection \<open>Python values and the run configuration\<close>

text \<open>
  The values a configuration holds. \<open>PObject\<close> is an opaque object, such as a device
  handle or a \<^verbatim>\<open>Path\<close>, known by a name only. A configuration is a dictionary from
  strings to values; a group of the nested configuration is a \<open>PDict\<close>.
\<close>

datatype pyval =
    PNone | PBool bool | PInt int | PFloat real | PStr string | PList "pyval list"
  | PDict "string \<Rightarrow> pyval option" | PObject string

type_synonym config = "string \<Rightarrow> pyval option"

subsection \<open>Warm start and resume (tabpfn lines 71 to 87, mothernet lines 68 to 85)\<close>

text \<open>
  \<^verbatim>\<open>str.replace(old, '')\<close> for a non-empty \<open>old\<close>: every occurrence, from the left,
  not overlapping. \<open>skip\<close> counts the characters of an occurrence still to be dropped.
\<close>

fun remove_all :: "string \<Rightarrow> nat \<Rightarrow> string \<Rightarrow> string" where
  "remove_all old skip [] = []"
| "remove_all old skip (c # cs) =
     (if 0 < skip then remove_all old (skip - 1) cs
      else if take (length old) (c # cs) = old then remove_all old (length old - 1) cs
      else c # remove_all old 0 cs)"

text \<open>
  The dictionary comprehension over \<^verbatim>\<open>model_state.items()\<close>: the items in order, a
  later item replacing an earlier one with the same new key.
\<close>

definition strip_module_prefix :: "(string \<times> 't) list \<Rightarrow> (string \<Rightarrow> 't option)" where
  "strip_module_prefix items =
     map_of (rev (map (\<lambda>(k, v). (remove_all ''module.'' 0 k, v)) items))"

text \<open>
  The block of \<^verbatim>\<open>tabpfn/fit_model.py\<close>. \<open>torch_load\<close> stands for
  \<^verbatim>\<open>torch.load(warm_start_weights, map_location='cpu')\<close> and gives the checkpoint's
  four components or the error it raises. \<open>compare_dicts\<close> stands for the effect of the
  call of line 87 on \<^verbatim>\<open>config\<close> (the function prints, may remove run-derived keys
  and may raise); it is only reached when the run is not continued. The result is
  \<^verbatim>\<open>(model_state, optimizer_state, scheduler, config)\<close> as they stand after the block,
  \<open>None\<close> for Python's \<^verbatim>\<open>None\<close>.
\<close>

definition warm_start_tabpfn ::
  "(pyval \<Rightarrow> error + ((string \<times> 't) list \<times> 'o \<times> 's \<times> config))
     \<Rightarrow> (config \<Rightarrow> config \<Rightarrow> error + config)
     \<Rightarrow> pyval \<Rightarrow> pyval \<Rightarrow> bool \<Rightarrow> bool \<Rightarrow> pyval \<Rightarrow> config
     \<Rightarrow> error + ((string \<Rightarrow> 't option) option \<times> 'o option \<times> 's option \<times> config)" where
  "warm_start_tabpfn torch_load compare_dicts device warm_start_weights continue_run
       restart_scheduler stop_after_epochs config =
     (if warm_start_weights = PNone then Inr (None, None, None, config)
      else case torch_load warm_start_weights of
        Inl err \<Rightarrow> Inl err
      | Inr (model_state, old_optimizer_state, old_scheduler, old_config) \<Rightarrow>
          let model_state = strip_module_prefix model_state
          in if continue_run
             then
               let config = old_config;
                   config = config(''device'' \<mapsto> device);
                   config = config(''warm_start_from'' \<mapsto> warm_start_weights);
                   optimizer_state = Some old_optimizer_state;
                   config = config(''stop_after_epochs'' \<mapsto> stop_after_epochs);
                   scheduler = (if \<not> restart_scheduler then Some old_scheduler else None)
               in Inr (Some model_state, optimizer_state, scheduler, config)
             else
               (case compare_dicts config old_config of
                  Inl err \<Rightarrow> Inl err
                | Inr config \<Rightarrow> Inr (Some model_state, None, None, config)))"

text \<open>
  \<^verbatim>\<open>config['orchestration'][key] = value\<close> of \<^verbatim>\<open>mothernet/fit_model.py\<close>: the group
  is looked up first, and must be a dictionary.
\<close>

definition set_orchestration :: "config \<Rightarrow> string \<Rightarrow> pyval \<Rightarrow> error + config" where
  "set_orchestration config key v =
     (case config ''orchestration'' of
        None \<Rightarrow> Inl KeyError
      | Some (PDict orchestration) \<Rightarrow>
          Inr (config(''orchestration'' \<mapsto> PDict (orchestration(key \<mapsto> v))))
      | Some _ \<Rightarrow> Inl TypeError)"

text \<open>The block of \<^verbatim>\<open>mothernet/fit_model.py\<close>, with the same parameters.\<close>

definition warm_start_mothernet ::
  "(pyval \<Rightarrow> error + ((string \<times> 't) list \<times> 'o \<times> 's \<times> config))
     \<Rightarrow> (config \<Rightarrow> config \<Rightarrow> error + config)
     \<Rightarrow> pyval \<Rightarrow> pyval \<Rightarrow> bool \<Rightarrow> bool \<Rightarrow> pyval \<Rightarrow> config
     \<Rightarrow> error + ((string \<Rightarrow> 't option) option \<times> 'o option \<times> 's option \<times> config)" where
  "warm_start_mothernet torch_load compare_dicts device warm_start_weights continue_run
       restart_scheduler stop_after_epochs config =
     (if warm_start_weights = PNone then Inr (None, None, None, config)
      else case torch_load warm_start_weights of
        Inl err \<Rightarrow> Inl err
      | Inr (model_state, old_optimizer_state, old_scheduler, old_config) \<Rightarrow>
          let model_state = strip_module_prefix model_state
          in if continue_run
             then
               let config = old_config;
                   config = config(''device'' \<mapsto> device)
               in (case set_orchestration config ''warm_start_from'' warm_start_weights of
                     Inl err \<Rightarrow> Inl err
                   | Inr config \<Rightarrow>
                       let optimizer_state = Some old_optimizer_state
                       in (case set_orchestration config ''stop_after_epochs''
                                  stop_after_epochs of
                             Inl err \<Rightarrow> Inl err
                           | Inr config \<Rightarrow>
                               let scheduler = (if \<not> restart_scheduler
                                                then Some old_scheduler else None)
                               in Inr (Some model_state, optimizer_state, scheduler,
                                       config)))
             else
               (case compare_dicts config old_config of
                  Inl err \<Rightarrow> Inl err
                | Inr config \<Rightarrow> Inr (Some model_state, None, None, config)))"

subsection \<open>The experiment-tracking handshake and the tracked run\<close>

text \<open>
  The loop \<^verbatim>\<open>while tries < 5\<close> of both \<^verbatim>\<open>main\<close> functions. \<open>set_experiment k\<close> tells
  whether the call of \<^verbatim>\<open>mlflow.set_experiment\<close> made after \<open>k\<close> failures returns
  (\<open>True\<close>, the loop breaks) or raises (\<open>False\<close>: the bare \<^verbatim>\<open>except\<close> counts the
  failure, prints and sleeps five seconds). The result is the final value of
  \<^verbatim>\<open>tries\<close>; nothing follows the loop but the next statement of \<^verbatim>\<open>main\<close>.
\<close>

function set_experiment_loop :: "(nat \<Rightarrow> bool) \<Rightarrow> nat \<Rightarrow> nat" where
  "set_experiment_loop set_experiment tries =
     (if tries < 5
      then (if set_experiment tries then tries
            else set_experiment_loop set_experiment (tries + 1))
      else tries)"
  by pat_completeness auto
termination
  by (relation "measure (\<lambda>(set_experiment, tries). 5 - tries)") auto

datatype run_args = Run_id string | Run_name string

text \<open>
  What follows the loop: the run's identity. \<open>search_runs\<close> is the outcome of
  \<^verbatim>\<open>mlflow.search_runs(...)['run_id']\<close>; \<^verbatim>\<open>run_ids.iloc[0]\<close> raises on an empty
  result.
\<close>

definition resolve_run :: "(error + string list) \<Rightarrow> bool \<Rightarrow> bool \<Rightarrow> string \<Rightarrow> error + run_args" where
  "resolve_run search_runs continue_run create_new_run model_string =
     (if continue_run \<and> \<not> create_new_run
      then (case search_runs of
              Inl err \<Rightarrow> Inl err
            | Inr run_ids \<Rightarrow>
                if length run_ids > 1 then Inl ValueError
                else (case run_ids of
                        [] \<Rightarrow> Inl IndexError
                      | run_id # _ \<Rightarrow> Inr (Run_id run_id)))
      else Inr (Run_name model_string))"

text \<open>
  The tracked branch of \<^verbatim>\<open>main\<close> (tabpfn lines 162 to 188, mothernet lines 100 to
  129): the handshake, the run's identity, then training inside \<^verbatim>\<open>mlflow.start_run\<close>.
  \<open>train\<close> stands for everything that follows once the run's identity is known (in
  \<^verbatim>\<open>mothernet\<close> the git tag, then the \<^verbatim>\<open>with\<close> block). The result pairs the final
  \<^verbatim>\<open>tries\<close> with the outcome.
\<close>

definition tracked_run ::
  "(nat \<Rightarrow> bool) \<Rightarrow> (error + string list) \<Rightarrow> (run_args \<Rightarrow> error + 'r)
     \<Rightarrow> bool \<Rightarrow> bool \<Rightarrow> string \<Rightarrow> nat \<times> (error + 'r)" where
  "tracked_run set_experiment search_runs train continue_run create_new_run model_string =
     (let tries = set_experiment_loop set_experiment 0
      in (tries,
          case resolve_run search_runs continue_run create_new_run model_string of
            Inl err \<Rightarrow> Inl err
          | Inr run_args \<Rightarrow> train run_args))"

subsection \<open>The epoch callback (\<^verbatim>\<open>save_callback\<close> of \<^verbatim>\<open>tabpfn/fit_model.py\<close>)\<close>

text \<open>The callback's \<^verbatim>\<open>epoch\<close>: \<^verbatim>\<open>"start"\<close>, \<^verbatim>\<open>"on_exit"\<close> or an integer.\<close>

datatype epoch_arg = Start | On_exit | Epoch int

text \<open>
  The checkpoint files under \<^verbatim>\<open>base_path\<close>, by the shape of their names:
  \<^verbatim>\<open>checkpoint.mothernet\<close>, \<^verbatim>\<open>models_diff/<model_string>_epoch_<n>.cpkt\<close> and
  \<^verbatim>\<open>models_diff/<model_string>_epoch_on_exit.cpkt\<close>.
\<close>

datatype path = Slot_file | Epoch_file int | On_exit_file

datatype log_line = Epoch_line epoch_arg real real | Saving_line path

text \<open>The attributes of the model object that the callback uses.\<close>

record model_obj =
  last_saved_epoch :: "int option"
  losses :: "real list"
  learning_rates :: "real list"
  wallclock_times :: "real list"

text \<open>What the callback reads and writes: the model, the configuration, the files, the log.\<close>

record world =
  model :: model_obj
  config :: config
  files :: "path set"
  log_lines :: "log_line list"

text \<open>The variables of \<^verbatim>\<open>main\<close> that the closure captures.\<close>

record captured =
  save_every :: int
  checkpoint_dir :: "string option"
  no_mlflow :: bool

text \<open>
  The outcomes of the calls into the operating system and the tracking clients: whether
  appending to the log raises (at line 102, at line 130), whether
  \<^verbatim>\<open>mlflow.log_metric\<close> raises for a key, whether \<^verbatim>\<open>report\<close> raises, whether
  \<^verbatim>\<open>os.makedirs\<close> raises, the free bytes \<^verbatim>\<open>shutil.disk_usage\<close> reports (\<open>None\<close>
  when it raises), whether \<^verbatim>\<open>save_model\<close> raises, whether \<^verbatim>\<open>os.remove\<close> raises.
\<close>

record env =
  epoch_line_fails :: bool
  log_metric_fails :: "string \<Rightarrow> bool"
  report_fails :: bool
  makedirs_fails :: bool
  disk_free :: "nat option"
  saving_line_fails :: bool
  save_model_fails :: bool
  remove_fails :: "path \<Rightarrow> bool"

text \<open>Python's \<^verbatim>\<open>xs[i]\<close>: a negative index counts from the end.\<close>

definition py_index :: "'a list \<Rightarrow> int \<Rightarrow> error + 'a" where
  "py_index xs i =
     (if 0 \<le> i \<and> i < int (length xs) then Inr (xs ! nat i)
      else if i < 0 \<and> - int (length xs) \<le> i then Inr (xs ! nat (int (length xs) + i))
      else Inl IndexError)"

text \<open>Lines 100 to 105: the epoch's line of the log; every exception is caught.\<close>

definition write_epoch_line :: "env \<Rightarrow> epoch_arg \<Rightarrow> world \<Rightarrow> world" where
  "write_epoch_line E epoch w =
     (if epoch_line_fails E then w
      else case py_index (losses (model w)) (- 1) of
        Inl err \<Rightarrow> w
      | Inr loss \<Rightarrow>
          (case py_index (learning_rates (model w)) (- 1) of
             Inl err \<Rightarrow> w
           | Inr learning_rate \<Rightarrow>
               w\<lparr>log_lines := log_lines w @ [Epoch_line epoch loss learning_rate]\<rparr>))"

text \<open>
  Lines 107 to 114: the metrics go to the tracking clients, which keep them; the model
  records only the exception that escapes, if any. No \<^verbatim>\<open>try\<close> surrounds these lines.
\<close>

definition report_epoch :: "captured \<Rightarrow> env \<Rightarrow> epoch_arg \<Rightarrow> world \<Rightarrow> error option" where
  "report_epoch C E epoch w =
     (if epoch = On_exit then None
      else if wallclock_times (model w) = [] then Some IndexError
      else if \<not> no_mlflow C \<and> log_metric_fails E ''wallclock_time'' then Some ExternalError
      else if \<not> no_mlflow C \<and> losses (model w) = [] then Some IndexError
      else if \<not> no_mlflow C \<and> log_metric_fails E ''loss'' then Some ExternalError
      else if \<not> no_mlflow C \<and> learning_rates (model w) = [] then Some IndexError
      else if \<not> no_mlflow C \<and> log_metric_fails E ''learning_rate'' then Some ExternalError
      else if \<not> no_mlflow C \<and> log_metric_fails E ''wallclock_ticker''
      then Some ExternalError
      else if losses (model w) = [] then Some IndexError
      else if report_fails E then Some ExternalError
      else None)"

text \<open>
  The loop of lines 142 to 153 over the remaining indices of
  \<^verbatim>\<open>range(epoch // save_every)\<close>. An index out of the range of \<^verbatim>\<open>model.losses\<close>
  raises and ends the loop (the exception is caught on line 155); a failure of
  \<^verbatim>\<open>os.remove\<close> is caught inside the loop.
\<close>

fun remove_worse :: "env \<Rightarrow> int \<Rightarrow> real list \<Rightarrow> real \<Rightarrow> int list \<Rightarrow> path set \<Rightarrow> path set" where
  "remove_worse E every ls this_loss [] fs = fs"
| "remove_worse E every ls this_loss (i # later) fs =
     (case py_index ls (i * every - 1) of
        Inl err \<Rightarrow> fs
      | Inr loss \<Rightarrow>
          let old_file_name = Epoch_file (i * every)
          in if old_file_name \<in> fs
             then (if loss > this_loss
                   then (if remove_fails E old_file_name
                         then remove_worse E every ls this_loss later fs
                         else remove_worse E every ls this_loss later (fs - {old_file_name}))
                   else remove_worse E every ls this_loss later fs)
             else remove_worse E every ls this_loss later fs)"

text \<open>
  Modelled from the spec: \<^verbatim>\<open>save_model\<close> of \<^verbatim>\<open>tabpfn/model_builder.py\<close> is not among
  the sources. It writes the checkpoint (model, optimizer and scheduler state and the
  configuration) to the file \<^verbatim>\<open>file_name\<close>, so afterwards that file exists.
\<close>

definition save_model :: "path \<Rightarrow> world \<Rightarrow> world" where
  "save_model file_name w = w\<lparr>files := insert file_name (files w)\<rparr>"

text \<open>
  Lines 116 to 157, the \<^verbatim>\<open>try\<close> block that saves and prunes. Every exception is caught
  on line 155, so the block ends with the world as it is at that point. The callback has
  returned before this block when \<^verbatim>\<open>epoch\<close> is \<^verbatim>\<open>"start"\<close>.
\<close>

definition save_and_prune :: "captured \<Rightarrow> env \<Rightarrow> epoch_arg \<Rightarrow> world \<Rightarrow> world" where
  "save_and_prune C E epoch w =
     (case epoch of
        Start \<Rightarrow> w
      | _ \<Rightarrow>
        if epoch \<noteq> On_exit \<and> save_every C = 0 then w
        else if \<not> (epoch = On_exit
                   \<or> (case epoch of Epoch e \<Rightarrow> e mod save_every C = 0 | _ \<Rightarrow> False))
        then w
        else if checkpoint_dir C \<noteq> None \<and> epoch = On_exit then w
        else
          let file_name =
                (if checkpoint_dir C \<noteq> None then Slot_file
                 else (case epoch of Epoch e \<Rightarrow> Epoch_file e | _ \<Rightarrow> On_exit_file))
          in if makedirs_fails E then w
             else case disk_free E of
               None \<Rightarrow> w
             | Some free \<Rightarrow>
                 if free < 1024 * 1024 * 1024 * 2 then w
                 else if saving_line_fails E then w
                 else
                   let w = w\<lparr>log_lines := log_lines w @ [Saving_line file_name]\<rparr>;
                       w = w\<lparr>config := (config w)
                             (''epoch_in_training'' \<mapsto>
                                (case epoch of Epoch e \<Rightarrow> PInt e | _ \<Rightarrow> PStr ''on_exit''),
                              ''learning_rates'' \<mapsto>
                                PList (map PFloat (learning_rates (model w))),
                              ''losses'' \<mapsto> PList (map PFloat (losses (model w))),
                              ''wallclock_times'' \<mapsto>
                                PList (map PFloat (wallclock_times (model w))))\<rparr>
                   in if save_model_fails E then w
                      else
                        let w = save_model file_name w
                        in (case epoch of
                              Epoch e \<Rightarrow>
                                if e - save_every C > 0
                                then (case py_index (losses (model w)) (- 1) of
                                        Inl err \<Rightarrow> w
                                      | Inr this_loss \<Rightarrow>
                                          w\<lparr>files :=
                                              remove_worse E (save_every C) (losses (model w))
                                                this_loss
                                                (map int [0..<nat (e div save_every C)])
                                                (files w)\<rparr>)
                                else w
                            | _ \<Rightarrow> w))"

text \<open>
  \<^verbatim>\<open>save_callback(model, optimizer, scheduler, epoch)\<close>: the world after the call and
  the exception that escapes it, if any.
\<close>

definition save_callback :: "captured \<Rightarrow> env \<Rightarrow> epoch_arg \<Rightarrow> world \<Rightarrow> world \<times> error option" where
  "save_callback C E epoch w =
     (let w = (case last_saved_epoch (model w) of
                 None \<Rightarrow> w\<lparr>model := (model w)\<lparr>last_saved_epoch := Some 0\<rparr>\<rparr>
               | Some _ \<Rightarrow> w)
      in if epoch = Start then (w, None)
         else
           let w = write_epoch_line E epoch w
           in (case report_epoch C E epoch w of
                 Some err \<Rightarrow> (w, Some err)
               | None \<Rightarrow> (save_and_prune C E epoch w, None)))"

subsection \<open>Concrete inputs\<close>

text \<open>
  An environment in which no call fails and the volume reports \<open>free\<close> bytes, and the
  world after three epochs with losses \<open>ls\<close> and checkpoint files \<open>fs\<close>.
\<close>

definition example_env :: "nat \<Rightarrow> env" where
  "example_env free =
     \<lparr>epoch_line_fails = False, log_metric_fails = (\<lambda>key. False), report_fails = False,
      makedirs_fails = False, disk_free = Some free, saving_line_fails = False,
      save_model_fails = False, remove_fails = (\<lambda>file. False)\<rparr>"

definition example_world :: "real list \<Rightarrow> path set \<Rightarrow> world" where
  "example_world ls fs =
     \<lparr>model = \<lparr>last_saved_epoch = Some 0, losses = ls, learning_rates = [1, 1, 1],
               wallclock_times = [60, 120, 180]\<rparr>,
      config = Map.empty, files = fs, log_lines = []\<rparr>"

section \<open>Properties of the restart-cosine schedule\<close>

lemma lr_lambda_first_period:
  "0 < p \<Longrightarrow> 0 \<le> s \<Longrightarrow> s < p \<Longrightarrow> lr_lambda w p c s = Inr (inner_lr_lambda c s w p)"
  by (simp add: lr_lambda_def)

lemma lr_lambda_later_period:
  "0 < p \<Longrightarrow> p \<le> s \<Longrightarrow> lr_lambda w p c s = Inr (inner_lr_lambda c (s mod p) 0 p)"
  by (simp add: lr_lambda_def)

text \<open>
  C7 (as stated): the multiplier at step \<open>s\<close> equals the multiplier at step
  \<open>s mod steps_per_restart\<close>. It fails at the first step of the second period: with two
  warmup steps and a period of four, step 4 gives 1 (the top of a cosine cycle with no
  warmup) while step \<open>4 mod 4 = 0\<close> gives 0 (the bottom of the warmup ramp).
\<close>

theorem restart_cosine_not_periodic:
  "lr_lambda 2 4 (1/2) 4 = Inr 1 \<and> lr_lambda 2 4 (1/2) (4 mod 4) = Inr 0"
  by (simp add: lr_lambda_def inner_lr_lambda_def)

text \<open>
  C7 (amended): only the first period runs the warmup ramp. For a positive period \<open>p\<close>,
  a step \<open>r\<close> of the first period (\<open>0 \<le> r < p\<close>, in particular \<open>r = s mod p\<close>) gets the
  warmup+cosine cycle at \<open>r\<close>; a step \<open>s \<ge> p\<close> gets the cosine cycle with zero warmup
  at \<open>s mod p\<close>, so from the second period on the schedule is periodic with period \<open>p\<close>:
  the multiplier at \<open>s + p\<close> is the multiplier at \<open>s\<close>.
\<close>

theorem restart_cosine_periodic_after_first:
  assumes "0 < p" and "p \<le> s"
  shows "lr_lambda w p c s = Inr (inner_lr_lambda c (s mod p) 0 p)
       \<and> lr_lambda w p c (s + p) = lr_lambda w p c s
       \<and> lr_lambda w p c (s mod p) = Inr (inner_lr_lambda c (s mod p) w p)
       \<and> (\<forall>r. 0 \<le> r \<and> r < p \<longrightarrow> lr_lambda w p c r = Inr (inner_lr_lambda c r w p))"
proof -
  have later: "lr_lambda w p c s = Inr (inner_lr_lambda c (s mod p) 0 p)"
    using assms by (rule lr_lambda_later_period)
  have "p \<le> s + p" using assms by simp
  with assms(1) have "lr_lambda w p c (s + p) = Inr (inner_lr_lambda c ((s + p) mod p) 0 p)"
    by (rule lr_lambda_later_period)
  then have shift: "lr_lambda w p c (s + p) = lr_lambda w p c s"
    using later by simp
  have "0 \<le> s mod p" and "s mod p < p" using assms(1) by simp_all
  with assms(1) have first: "lr_lambda w p c (s mod p) = Inr (inner_lr_lambda c (s mod p) w p)"
    by (simp add: lr_lambda_first_period)
  have every: "\<forall>r. 0 \<le> r \<and> r < p \<longrightarrow> lr_lambda w p c r = Inr (inner_lr_lambda c r w p)"
    using assms(1) by (simp add: lr_lambda_first_period)
  from later shift first every show ?thesis by (intro conjI)
qed

theorem restart_cosine_periodic_after_first_witness:
  "lr_lambda 2 4 (1/2) 5 = Inr (inner_lr_lambda (1/2) 1 0 4)
   \<and> lr_lambda 2 4 (1/2) 9 = lr_lambda 2 4 (1/2) 5
   \<and> lr_lambda 2 4 (1/2) 1 = Inr (1/2)"
  using restart_cosine_periodic_after_first [of 4 5 2 "1/2"]
  by (simp add: inner_lr_lambda_def)

text \<open>
  C8: construction succeeds exactly when \<^verbatim>\<open>num_training_steps % steps_per_restart\<close>
  evaluates to 0. It fails with the assertion's error exactly when the remainder is
  defined and non-zero, and with Python's division error exactly when the period is 0
  (no remainder exists then, so the total is not evenly divisible either).
\<close>

theorem restart_cosine_construction:
  "((\<exists>f. get_restarting_cosine_schedule_with_warmup w n p c = Inr f)
      \<longleftrightarrow> p \<noteq> 0 \<and> n mod p = 0)
   \<and> (get_restarting_cosine_schedule_with_warmup w n p c = Inl AssertionError
      \<longleftrightarrow> p \<noteq> 0 \<and> n mod p \<noteq> 0)
   \<and> (get_restarting_cosine_schedule_with_warmup w n p c = Inl ZeroDivisionError
      \<longleftrightarrow> p = 0)
   \<and> (isl (get_restarting_cosine_schedule_with_warmup w n p c)
      \<longleftrightarrow> \<not> (p \<noteq> 0 \<and> n mod p = 0))"
  by (simp add: get_restarting_cosine_schedule_with_warmup_def)

section \<open>Properties of the reduce-on-spike scheduler\<close>

subsection \<open>The loop over the parameter groups\<close>

lemma reduce_groups_ok:
  "i + length gs \<le> length mins \<Longrightarrow>
   reduce_groups fac mins e i gs =
     (map2 (\<lambda>g m. if lr g - max (lr g * fac) m > e then g\<lparr>lr := max (lr g * fac) m\<rparr> else g) gs (drop i mins), None)"
proof (induction gs arbitrary: i)
  case Nil
  then show ?case by simp
next
  case (Cons g gs)
  then have "i < length mins" by simp
  then have d: "drop i mins = mins ! i # drop (Suc i) mins" by (simp add: Cons_nth_drop_Suc)
  from Cons show ?case by (simp add: d Let_def)
qed

lemma reduce_groups_length: "length (fst (reduce_groups fac mins e i gs)) = length gs"
  by (induction gs arbitrary: i) (simp_all add: Let_def split_def)

lemma reduce_groups_mono:
  "0 \<le> e \<Longrightarrow> list_all2 (\<lambda>g' g. lr g' \<le> lr g) (fst (reduce_groups fac mins e i gs)) gs"
proof (induction gs arbitrary: i)
  case Nil
  then show ?case by simp
next
  case (Cons g gs)
  have "max (lr g * fac) m \<le> lr g" if "e < lr g - max (lr g * fac) m" for m
    using that Cons.prems by linarith
  with Cons show ?case
    by (simp add: Let_def split_def list_all2_refl del: max.bounded_iff)
qed

lemma reduce_groups_floor:
  "k < length gs \<Longrightarrow> lr (fst (reduce_groups fac mins e i gs) ! k) \<noteq> lr (gs ! k)
   \<Longrightarrow> i + k < length mins \<and> mins ! (i + k) \<le> lr (fst (reduce_groups fac mins e i gs) ! k)"
proof (induction gs arbitrary: i k)
  case Nil
  then show ?case by simp
next
  case (Cons g gs)
  show ?case
  proof (cases k)
    case 0
    with Cons.prems show ?thesis by (auto simp: Let_def split_def split: if_splits)
  next
    case (Suc j)
    with Cons.prems have a: "\<not> length mins \<le> i" by (auto split: if_splits)
    with Cons.prems Suc have "j < length gs" "lr (fst (reduce_groups fac mins e (Suc i) gs) ! j) \<noteq> lr (gs ! j)"
      by (simp_all add: Let_def split_def)
    from Cons.IH[OF this] a Suc show ?thesis by (simp add: Let_def split_def)
  qed
qed

subsection \<open>One call of \<^verbatim>\<open>step\<close>\<close>

lemma step_preserves:
  "eps (fst (step self m)) = eps self \<and> min_lrs (fst (step self m)) = min_lrs self
   \<and> factor (fst (step self m)) = factor self \<and> smoothing (fst (step self m)) = smoothing self"
  by (simp add: step_def reduce_lr_def Let_def split_def split: option.splits)

lemma step_optimizer:
  "optimizer (fst (step self m)) = optimizer self \<or>
   optimizer (fst (step self m)) = fst (reduce_groups (factor self) (min_lrs self) (eps self) 0 (optimizer self))"
  by (simp add: step_def reduce_lr_def Let_def split_def split: option.splits)


text \<open>
  While the window holds fewer than \<open>smoothing\<close> samples, the observation is appended
  and nothing else but the call counter changes.
\<close>

lemma step_window_not_full:
  assumes "int (length (recent_losses self)) < smoothing self"
  shows "step self current =
           (self\<lparr>last_epoch := last_epoch self + 1,
                 recent_losses := recent_losses self @ [current]\<rparr>, None)"
  using assms by (simp add: step_def)

text \<open>
  With a full window and no spike, the parameter groups and \<open>recent_losses\<close> are left
  as they were; the slid window goes to \<open>recent_loses\<close>.
\<close>

lemma step_no_spike:
  assumes "\<not> int (length (recent_losses self)) < smoothing self"
    and "\<not> loss_looks_bad (recent_losses self) current"
  shows "step self current =
           (self\<lparr>last_epoch := last_epoch self + 1,
                 recent_loses := Some (drop 1 (recent_losses self) @ [current]),
                 last_lr := Some (map lr (optimizer self))\<rparr>, None)"
  using assms by (simp add: step_def)

lemma step_mono:
  assumes "0 \<le> eps self"
  shows "list_all2 (\<lambda>g' g. lr g' \<le> lr g) (optimizer (fst (step self m))) (optimizer self)"
  using step_optimizer [of self m] reduce_groups_mono [OF assms]
  by (auto simp: list_all2_refl)

lemma step_floor:
  assumes "k < length (optimizer self)"
    and "lr (optimizer (fst (step self m)) ! k) \<noteq> lr (optimizer self ! k)"
  shows "k < length (min_lrs self) \<and> min_lrs self ! k \<le> lr (optimizer (fst (step self m)) ! k)"
  using step_optimizer [of self m] assms
    reduce_groups_floor [of k "optimizer self" "factor self" "min_lrs self" "eps self" 0]
  by auto

subsection \<open>Sequences of calls\<close>

lemma steps_preserves:
  "eps (fst (steps self ms)) = eps self \<and> min_lrs (fst (steps self ms)) = min_lrs self"
proof (induction ms arbitrary: self)
  case Nil
  then show ?case by simp
next
  case (Cons m ms)
  show ?case
  proof (cases "step self m")
    case (Pair self' raised)
    with step_preserves [of self m] have "eps self' = eps self" "min_lrs self' = min_lrs self"
      by simp_all
    with Pair Cons.IH [of self'] show ?thesis
      by (cases raised) simp_all
  qed
qed

lemma steps_mono:
  assumes "0 \<le> eps self"
  shows "list_all2 (\<lambda>g' g. lr g' \<le> lr g) (optimizer (fst (steps self ms))) (optimizer self)"
  using assms
proof (induction ms arbitrary: self)
  case Nil
  then show ?case by (simp add: list_all2_refl)
next
  case (Cons m ms)
  show ?case
  proof (cases "step self m")
    case (Pair self' raised)
    have one: "list_all2 (\<lambda>g' g. lr g' \<le> lr g) (optimizer self') (optimizer self)"
      using step_mono [OF Cons.prems, of m] Pair by simp
    show ?thesis
    proof (cases raised)
      case None
      have "0 \<le> eps self'" using step_preserves [of self m] Pair Cons.prems by simp
      then have "list_all2 (\<lambda>g' g. lr g' \<le> lr g) (optimizer (fst (steps self' ms))) (optimizer self')"
        by (rule Cons.IH)
      then have "list_all2 (\<lambda>g' g. lr g' \<le> lr g) (optimizer (fst (steps self' ms))) (optimizer self)"
        using one by (rule list_all2_trans [rotated]) simp
      with Pair None show ?thesis by simp
    next
      case (Some err)
      with Pair one show ?thesis by simp
    qed
  qed
qed

subsection \<open>The claims about the scheduler\<close>

text \<open>
  C3: a call that does not trigger a reduction leaves every learning rate unchanged and
  appends to a window that is not yet full (\<open>step_window_not_full\<close>,
  \<open>step_no_spike\<close>); with a full window it is said to slide the window by one. The
  code does not: with \<open>smoothing = 2\<close>, window \<open>[0, 2]\<close> (mean 1, standard deviation 1)
  and observation 1, the window stays \<open>[0, 2]\<close> instead of becoming \<open>[2, 1]\<close>; the
  slid list is stored in the attribute \<open>recent_loses\<close>.
\<close>

theorem full_window_is_not_slid:
  "step
     \<lparr>optimizer = [\<lparr>lr = 1\<rparr>], factor = 1/10, min_lrs = [0], smoothing = 2,
       verbose = False, mode = ''min'', eps = 0, last_epoch = 2, recent_losses = [0, 2],
       recent_loses = None, last_lr = None\<rparr> 1
   = (\<lparr>optimizer = [\<lparr>lr = 1\<rparr>], factor = 1/10, min_lrs = [0], smoothing = 2,
       verbose = False, mode = ''min'', eps = 0, last_epoch = 3, recent_losses = [0, 2],
       recent_loses = Some [2, 1], last_lr = Some [1]\<rparr>, None)"
  by (simp add: step_def loss_looks_bad_def np_std_def np_mean_def)

text \<open>
  C4: when the window is full and the observation is further from the window's mean than
  its standard deviation, every parameter group's rate becomes
  \<open>max (old_lr * factor) min_lr\<close> of that group unless \<open>old_lr - new_lr\<close> is not greater
  than \<open>eps\<close> (then the group keeps its rate), and the window is reset to empty. Each
  group has its minimum: \<open>min_lrs\<close> is at least as long as the list of groups (the
  constructor makes them equally long).
\<close>

theorem spike_reduces_every_group:
  assumes full: "smoothing self \<le> int (length (recent_losses self))"
    and bad: "recent_losses self \<noteq> []"
      "\<bar>np_mean (recent_losses self) - current\<bar> > np_std (recent_losses self)"
    and mins: "length (optimizer self) \<le> length (min_lrs self)"
  shows "\<exists>self'. step self current = (self', None) \<and> recent_losses self' = []
     \<and> map lr (optimizer self') =
         map2 (\<lambda>param_group min_lr.
                 let old_lr = lr param_group; new_lr = max (old_lr * factor self) min_lr
                 in if old_lr - new_lr > eps self then new_lr else old_lr)
           (optimizer self) (min_lrs self)"
proof -
  have r: "reduce_groups (factor self) (min_lrs self) (eps self) 0 (optimizer self) =
     (map2 (\<lambda>g m. if lr g - max (lr g * factor self) m > eps self
                   then g\<lparr>lr := max (lr g * factor self) m\<rparr> else g)
        (optimizer self) (drop 0 (min_lrs self)), None)"
    by (rule reduce_groups_ok) (simp add: mins)
  have l: "map lr (map2 (\<lambda>g m. if lr g - max (lr g * fac) m > e
                   then g\<lparr>lr := max (lr g * fac) m\<rparr> else g) gs ms)
         = map2 (\<lambda>g m. let old_lr = lr g; new_lr = max (old_lr * fac) m
                 in if old_lr - new_lr > e then new_lr else old_lr) gs ms" for gs ms fac e
    by (induction gs ms rule: list_induct2') (simp_all add: Let_def)
  show ?thesis
    using full bad
    by (auto simp add: step_def loss_looks_bad_def reduce_lr_def r Let_def)
qed


theorem spike_reduces_every_group_witness:
  "\<exists>self'. step
     \<lparr>optimizer = [\<lparr>lr = 1\<rparr>], factor = 1/10, min_lrs = [0], smoothing = 2,
       verbose = False, mode = ''min'', eps = 0, last_epoch = 2, recent_losses = [0, 2],
       recent_loses = None, last_lr = None\<rparr> 5 = (self', None)
     \<and> recent_losses self' = [] \<and> map lr (optimizer self') = [1/10]"
  using spike_reduces_every_group [of
     "\<lparr>optimizer = [\<lparr>lr = 1\<rparr>], factor = 1/10, min_lrs = [0], smoothing = 2,
       verbose = False, mode = ''min'', eps = 0, last_epoch = 2, recent_losses = [0, 2],
       recent_loses = None, last_lr = None\<rparr>" 5]
  by (simp add: np_std_def np_mean_def)

text \<open>
  C6 (as stated): no call of \<^verbatim>\<open>step\<close> ever increases a group's rate. With a negative
  \<open>eps\<close> the suppression test \<open>old_lr - new_lr > eps\<close> lets an increase through: a
  group at rate 1/10 whose minimum is 1/2 is raised to 1/2.
\<close>

theorem negative_eps_raises_rate:
  "step
     \<lparr>optimizer = [\<lparr>lr = 1/10\<rparr>], factor = 1/10, min_lrs = [1/2], smoothing = 2,
       verbose = False, mode = ''min'', eps = - 1, last_epoch = 2, recent_losses = [0, 2],
       recent_loses = None, last_lr = None\<rparr> 5
   = (\<lparr>optimizer = [\<lparr>lr = 1/2\<rparr>], factor = 1/10, min_lrs = [1/2], smoothing = 2,
       verbose = False, mode = ''min'', eps = - 1, last_epoch = 3, recent_losses = [],
       recent_loses = None, last_lr = Some [1/2]\<rparr>, None)"
  by (simp add: step_def loss_looks_bad_def np_std_def np_mean_def reduce_lr_def)

text \<open>
  C6 (amended): for a scheduler with \<open>0 \<le> eps\<close>, along every sequence of
  \<^verbatim>\<open>step\<close> calls each group's rate is non-increasing (after the sequence it is at most
  what it was at the start, and the next call does not increase it either), and whenever
  a call changes a group's rate the new rate is at least that group's \<open>min_lr\<close>.
\<close>

theorem reduce_on_spike_monotone:
  assumes "0 \<le> eps self"
  shows "list_all2 (\<lambda>g' g. lr g' \<le> lr g) (optimizer (fst (steps self ms))) (optimizer self)
    \<and> list_all2 (\<lambda>g' g. lr g' \<le> lr g)
         (optimizer (fst (step (fst (steps self ms)) m))) (optimizer (fst (steps self ms)))
    \<and> (\<forall>k < length (optimizer (fst (steps self ms))).
         lr (optimizer (fst (step (fst (steps self ms)) m)) ! k)
           \<noteq> lr (optimizer (fst (steps self ms)) ! k)
         \<longrightarrow> k < length (min_lrs self)
             \<and> min_lrs self ! k \<le> lr (optimizer (fst (step (fst (steps self ms)) m)) ! k))"
proof -
  let ?before = "fst (steps self ms)"
  have e: "0 \<le> eps ?before" and m: "min_lrs ?before = min_lrs self"
    using steps_preserves [of self ms] assms by simp_all
  have a: "list_all2 (\<lambda>g' g. lr g' \<le> lr g) (optimizer ?before) (optimizer self)"
    using assms by (rule steps_mono)
  have b: "list_all2 (\<lambda>g' g. lr g' \<le> lr g) (optimizer (fst (step ?before m))) (optimizer ?before)"
    using e by (rule step_mono)
  have c: "k < length (min_lrs self) \<and> min_lrs self ! k \<le> lr (optimizer (fst (step ?before m)) ! k)"
    if "k < length (optimizer ?before)"
      and "lr (optimizer (fst (step ?before m)) ! k) \<noteq> lr (optimizer ?before ! k)" for k
    using step_floor [OF that] m by simp
  from a b c show ?thesis by blast
qed

theorem reduce_on_spike_monotone_witness:
  "list_all2 (\<lambda>g' g. lr g' \<le> lr g)
     (optimizer (fst (steps
     \<lparr>optimizer = [\<lparr>lr = 1\<rparr>], factor = 1/10, min_lrs = [0], smoothing = 2,
       verbose = False, mode = ''min'', eps = 0, last_epoch = 2, recent_losses = [0, 2],
       recent_loses = None, last_lr = None\<rparr> [1, 5])))
     [\<lparr>lr = 1\<rparr>]
   \<and> map lr (optimizer (fst (steps
     \<lparr>optimizer = [\<lparr>lr = 1\<rparr>], factor = 1/10, min_lrs = [0], smoothing = 2,
       verbose = False, mode = ''min'', eps = 0, last_epoch = 2, recent_losses = [0, 2],
       recent_loses = None, last_lr = None\<rparr> [1, 5]))) = [1/10]"
  using reduce_on_spike_monotone [of
     "\<lparr>optimizer = [\<lparr>lr = 1\<rparr>], factor = 1/10, min_lrs = [0], smoothing = 2,
       verbose = False, mode = ''min'', eps = 0, last_epoch = 2, recent_losses = [0, 2],
       recent_loses = None, last_lr = None\<rparr>" "[1, 5]" 7]
  by (simp add: step_def loss_looks_bad_def np_std_def np_mean_def reduce_lr_def)

section \<open>Properties of the constructor\<close>

lemma names_not_bound:
  "\<not> bound_in_init ''threshold''" "\<not> bound_in_init ''threshold_mode''"
  by (simp_all add: bound_in_init_def init_parameters_def utils_globals_def)

lemma init_always_raises:
  "isl (ReduceLROnSpike_init optimizer_a mode_a factor_a smoothing_a min_lr eps_a verbose_a)"
  by (simp add: ReduceLROnSpike_init_def names_not_bound
      split: optimizer_arg.split min_lr_arg.split)

text \<open>
  C10 (as stated): for every optimizer and every \<open>factor < 1\<close> the constructor raises a
  NameError. The check of the minimum rates comes first: a list of two minimum rates for
  an optimizer with one parameter group raises a ValueError (line 440).
\<close>

theorem init_value_error:
  "ReduceLROnSpike_init (AnOptimizer [\<lparr>lr = 1\<rparr>]) ''min'' (1/10) 10 (Sequence [0, 0])
     (1/100000000) False = Inl ValueError"
  by (simp add: ReduceLROnSpike_init_def)

text \<open>
  C10 (amended): for every optimizer, every \<open>factor < 1\<close> and every \<open>min_lr\<close> that is a
  scalar or a sequence with one entry per parameter group, the constructor raises a
  NameError (at the read of \<^verbatim>\<open>threshold\<close>); and whatever its arguments, the constructor
  raises, so \<^verbatim>\<open>__init__\<close> never completes.
\<close>

theorem init_name_error:
  assumes "factor_a < 1"
    and "case min_lr of Sequence ms \<Rightarrow> length ms = length param_groups | Scalar m \<Rightarrow> True"
  shows "ReduceLROnSpike_init (AnOptimizer param_groups) mode_a factor_a smoothing_a min_lr
           eps_a verbose_a = Inl NameError
     \<and> (\<forall>any_optimizer any_mode any_factor any_smoothing any_min_lr any_eps any_verbose.
           isl (ReduceLROnSpike_init any_optimizer any_mode any_factor any_smoothing
                  any_min_lr any_eps any_verbose))"
proof -
  have "ReduceLROnSpike_init (AnOptimizer param_groups) mode_a factor_a smoothing_a min_lr
           eps_a verbose_a = Inl NameError"
    using assms by (cases min_lr) (simp_all add: ReduceLROnSpike_init_def names_not_bound)
  then show ?thesis using init_always_raises by simp
qed

theorem init_name_error_witness:
  "ReduceLROnSpike_init (AnOptimizer [\<lparr>lr = 1\<rparr>]) ''min'' (1/10) 10 (Scalar 0)
     (1/100000000) False = Inl NameError"
  using init_name_error [where factor_a = "1/10" and min_lr = "Scalar 0"
      and param_groups = "[\<lparr>lr = 1\<rparr>]" and mode_a = "''min''" and smoothing_a = 10
      and eps_a = "1/100000000" and verbose_a = False]
  by simp

section \<open>Properties of the resume block\<close>

text \<open>
  C2: when a checkpoint is loaded and the run is continued, the configuration after the
  block is the checkpoint's configuration with exactly three entries overwritten from
  the invocation (the device, the warm-start source and the stop-after-epochs bound; in
  \<^verbatim>\<open>mothernet\<close> the last two are entries of the group \<^verbatim>\<open>orchestration\<close>); every other
  entry is the checkpoint's. The checkpoint's scheduler is kept exactly when no restart
  of the scheduler is requested; otherwise \<open>None\<close> is passed on, for which the trainer
  builds a new scheduler.
\<close>

theorem resume_adopts_old_config:
  assumes "warm_start_weights \<noteq> PNone"
    and "torch_load warm_start_weights =
           Inr (model_state, old_optimizer_state, old_scheduler, old_config)"
  shows "warm_start_tabpfn torch_load compare_dicts device warm_start_weights True
             restart_scheduler stop_after_epochs fresh_config =
           Inr (Some (strip_module_prefix model_state), Some old_optimizer_state,
                (if restart_scheduler then None else Some old_scheduler),
                old_config(''device'' \<mapsto> device, ''warm_start_from'' \<mapsto> warm_start_weights,
                           ''stop_after_epochs'' \<mapsto> stop_after_epochs))
     \<and> (\<forall>k. k \<notin> {''device'', ''warm_start_from'', ''stop_after_epochs''} \<longrightarrow>
            (old_config(''device'' \<mapsto> device, ''warm_start_from'' \<mapsto> warm_start_weights,
                        ''stop_after_epochs'' \<mapsto> stop_after_epochs)) k = old_config k)
     \<and> (\<forall>orchestration. old_config ''orchestration'' = Some (PDict orchestration) \<longrightarrow>
           warm_start_mothernet torch_load compare_dicts device warm_start_weights True
               restart_scheduler stop_after_epochs fresh_config =
             Inr (Some (strip_module_prefix model_state), Some old_optimizer_state,
                  (if restart_scheduler then None else Some old_scheduler),
                  old_config(''device'' \<mapsto> device,
                    ''orchestration'' \<mapsto>
                       PDict (orchestration(''warm_start_from'' \<mapsto> warm_start_weights,
                                            ''stop_after_epochs'' \<mapsto> stop_after_epochs))))
         \<and> (\<forall>k. k \<notin> {''warm_start_from'', ''stop_after_epochs''} \<longrightarrow>
               (orchestration(''warm_start_from'' \<mapsto> warm_start_weights,
                              ''stop_after_epochs'' \<mapsto> stop_after_epochs)) k
               = orchestration k))"
  using assms
  by (simp add: warm_start_tabpfn_def warm_start_mothernet_def set_orchestration_def)


theorem resume_adopts_old_config_witness:
  "warm_start_tabpfn
      (\<lambda>file. Inr ([(''module.weight'', 1::nat)], 2::nat, 3::nat, [''lr'' \<mapsto> PFloat 1, ''orchestration'' \<mapsto> PDict [''save_every'' \<mapsto> PInt 10]]))
      (\<lambda>left right. Inr left) (PObject ''cuda:0'') (PStr ''run.cpkt'') True False (PInt 100)
      Map.empty
    = Inr (Some (strip_module_prefix [(''module.weight'', 1)]), Some 2, Some 3,
        [''lr'' \<mapsto> PFloat 1, ''orchestration'' \<mapsto> PDict [''save_every'' \<mapsto> PInt 10],
         ''device'' \<mapsto> PObject ''cuda:0'', ''warm_start_from'' \<mapsto> PStr ''run.cpkt'',
         ''stop_after_epochs'' \<mapsto> PInt 100])
   \<and> warm_start_mothernet
      (\<lambda>file. Inr ([(''module.weight'', 1::nat)], 2::nat, 3::nat, [''lr'' \<mapsto> PFloat 1, ''orchestration'' \<mapsto> PDict [''save_every'' \<mapsto> PInt 10]]))
      (\<lambda>left right. Inr left) (PObject ''cuda:0'') (PStr ''run.cpkt'') True False (PInt 100)
      Map.empty
    = Inr (Some (strip_module_prefix [(''module.weight'', 1)]), Some 2, Some 3,
        [''lr'' \<mapsto> PFloat 1, ''orchestration'' \<mapsto> PDict [''save_every'' \<mapsto> PInt 10],
         ''device'' \<mapsto> PObject ''cuda:0'',
         ''orchestration'' \<mapsto> PDict [''save_every'' \<mapsto> PInt 10,
            ''warm_start_from'' \<mapsto> PStr ''run.cpkt'', ''stop_after_epochs'' \<mapsto> PInt 100]])"
  using resume_adopts_old_config [of "PStr ''run.cpkt''"
      "(\<lambda>file. Inr ([(''module.weight'', 1::nat)], 2::nat, 3::nat, [''lr'' \<mapsto> PFloat 1, ''orchestration'' \<mapsto> PDict [''save_every'' \<mapsto> PInt 10]]))"
      "[(''module.weight'', 1)]" 2 3
      "[''lr'' \<mapsto> PFloat 1, ''orchestration'' \<mapsto> PDict [''save_every'' \<mapsto> PInt 10]]"
      "\<lambda>left right. Inr left" "PObject ''cuda:0''" False "PInt 100" Map.empty]
  by simp

section \<open>Properties of the tracking handshake\<close>

lemma set_experiment_loop_bounded:
  "tries \<le> 5 \<Longrightarrow> set_experiment_loop set_experiment tries \<le> 5"
  by (induction set_experiment tries rule: set_experiment_loop.induct) simp

lemma set_experiment_loop_all_fail:
  assumes "\<forall>k<5. \<not> set_experiment k"
  shows "set_experiment_loop set_experiment 0 = 5"
  using assms by simp

text \<open>
  C9 (as stated): when all five attempts fail, the failure is raised as a fatal error.
  The loop only counts and prints: after five failures \<^verbatim>\<open>main\<close> goes on to name the run
  and to train.
\<close>

theorem exhausted_handshake_continues:
  "tracked_run (\<lambda>k. False) (Inr []) (\<lambda>run_args. Inr run_args) False False ''run''
     = (5, Inr (Run_name ''run''))"
  by (simp add: tracked_run_def resolve_run_def)

text \<open>
  C9 (amended): when every one of the five attempts fails, the loop ends with
  \<open>tries = 5\<close> and raises nothing; \<^verbatim>\<open>main\<close> continues with the run's identity and the
  training exactly as after a handshake that succeeded at once.
\<close>

theorem handshake_bounded_not_surfaced:
  assumes "\<forall>k<5. \<not> set_experiment k"
  shows "set_experiment_loop set_experiment 0 = 5
     \<and> tracked_run set_experiment search_runs train continue_run create_new_run model_string
       = (5, snd (tracked_run (\<lambda>k. True) search_runs train continue_run create_new_run
                    model_string))"
  using set_experiment_loop_all_fail [OF assms]
  by (simp add: tracked_run_def)

theorem handshake_bounded_not_surfaced_witness:
  "set_experiment_loop (\<lambda>k. 5 \<le> k) 0 = 5
   \<and> tracked_run (\<lambda>k. 5 \<le> k) (Inr [''a'', ''b'']) (\<lambda>run_args. Inr run_args) True False ''run''
     = (5, Inl ValueError)"
  using handshake_bounded_not_surfaced [of "\<lambda>k. 5 \<le> k" "Inr [''a'', ''b'']"
      "\<lambda>run_args. Inr run_args" True False "''run''"]
  by (simp add: tracked_run_def resolve_run_def)

section \<open>Properties of the epoch callback\<close>

lemma report_epoch_reads:
  assumes "wallclock_times (model w') = wallclock_times (model w)"
    and "losses (model w') = losses (model w)"
    and "learning_rates (model w') = learning_rates (model w)"
  shows "report_epoch C E epoch w' = report_epoch C E epoch w"
  unfolding report_epoch_def assms ..

lemma write_epoch_line_frame:
  "model (write_epoch_line E epoch w) = model w
   \<and> files (write_epoch_line E epoch w) = files w
   \<and> config (write_epoch_line E epoch w) = config w"
  by (simp add: write_epoch_line_def split: sum.splits)

lemma low_disk_save_and_prune:
  assumes "disk_free E = Some free" and "free < 2 * 1024 ^ 3"
  shows "save_and_prune C E epoch w = w"
  using assms by (simp add: save_and_prune_def split: epoch_arg.splits)

text \<open>
  C5: when the callback reaches the save block (the reporting lines before it raised
  nothing) and the volume reports less than 2 GiB free, no checkpoint file is written,
  the configuration is untouched and no exception leaves the callback.
\<close>

theorem low_disk_skips_checkpoint:
  assumes "disk_free E = Some free" and "free < 2 * 1024 ^ 3"
    and "report_epoch C E epoch w = None"
  shows "snd (save_callback C E epoch w) = None
     \<and> files (fst (save_callback C E epoch w)) = files w
     \<and> config (fst (save_callback C E epoch w)) = config w
     \<and> save_and_prune C E epoch w = w"
proof -
  define w0 where "w0 = (case last_saved_epoch (model w) of
                 None \<Rightarrow> w\<lparr>model := (model w)\<lparr>last_saved_epoch := Some 0\<rparr>\<rparr>
               | Some _ \<Rightarrow> w)"
  have f0: "files w0 = files w" "config w0 = config w"
    by (simp_all add: w0_def split: option.splits)
  have "report_epoch C E epoch (write_epoch_line E epoch w0) = report_epoch C E epoch w"
    by (rule report_epoch_reads)
      (simp_all add: write_epoch_line_frame w0_def split: option.splits)
  then have r0: "report_epoch C E epoch (write_epoch_line E epoch w0) = None"
    using assms(3) by simp
  have cb: "save_callback C E epoch w =
      (if epoch = Start then (w0, None)
       else (save_and_prune C E epoch (write_epoch_line E epoch w0), None))"
    using r0 by (simp add: save_callback_def w0_def [symmetric] Let_def)
  have sp: "save_and_prune C E epoch w' = w'" for w'
    using assms(1,2) by (rule low_disk_save_and_prune)
  show ?thesis
    using f0 write_epoch_line_frame [of E epoch w0] by (simp add: cb sp)
qed


theorem low_disk_skips_checkpoint_witness:
  "snd (save_callback \<lparr>save_every = 1, checkpoint_dir = None, no_mlflow = True\<rparr>
      (example_env 2147483647) (Epoch 3)
      (example_world [8, 9, 5] {Epoch_file 1, Epoch_file 2})) = None
   \<and> files (fst (save_callback \<lparr>save_every = 1, checkpoint_dir = None, no_mlflow = True\<rparr>
      (example_env 2147483647) (Epoch 3)
      (example_world [8, 9, 5] {Epoch_file 1, Epoch_file 2})))
     = {Epoch_file 1, Epoch_file 2}"
proof -
  have d: "disk_free (example_env 2147483647) = Some 2147483647"
    by (simp add: example_env_def)
  have r: "report_epoch \<lparr>save_every = 1, checkpoint_dir = None, no_mlflow = True\<rparr>
      (example_env 2147483647) (Epoch 3)
      (example_world [8, 9, 5] {Epoch_file 1, Epoch_file 2}) = None"
    by (simp add: report_epoch_def example_env_def example_world_def)
  have f: "files (example_world [8, 9, 5] {Epoch_file 1, Epoch_file 2})
      = {Epoch_file 1, Epoch_file 2}"
    by (simp add: example_world_def)
  show ?thesis
    using low_disk_skips_checkpoint [OF d _ r] f by simp
qed

subsection \<open>Pruning\<close>

lemma py_index_last: "ls \<noteq> [] \<Longrightarrow> py_index ls (- 1) = Inr (last ls)"
  by (cases ls rule: rev_cases) (simp_all add: py_index_def nat_add_distrib)

text \<open>
  The first index of the loop is 0, for which line 143 reads \<^verbatim>\<open>model.losses[-1]\<close>, the
  current loss itself: that round of the loop removes nothing.
\<close>

lemma remove_worse_bucket_zero:
  assumes "py_index ls (- 1) = Inr this_loss"
  shows "remove_worse E every ls this_loss (0 # later) fs
       = remove_worse E every ls this_loss later fs"
  using assms by (simp add: Let_def)

lemma range_from_one: "0 < n \<Longrightarrow> map int [0..<n] = 0 # map int [1..<n]"
  by (simp add: upt_conv_Cons)

text \<open>
  For the later buckets (indices from 1, with a loss recorded for each) the loop removes
  exactly the files whose recorded loss is greater than the current one.
\<close>

lemma remove_worse_later_buckets:
  assumes "0 < every" and "\<forall>file. \<not> remove_fails E file"
    and "\<forall>i \<in> set indices. 1 \<le> i \<and> i * every \<le> int (length ls)"
  shows "remove_worse E every ls this_loss indices fs =
           fs - {Epoch_file (i * every) | i. i \<in> set indices \<and> ls ! nat (i * every - 1) > this_loss}"
  using assms(3)
proof (induction indices arbitrary: fs)
  case Nil
  then show ?case by simp
next
  case (Cons i indices)
  then have i: "1 \<le> i" "i * every \<le> int (length ls)" by simp_all
  with assms(1) have "1 * every \<le> i * every" by (intro mult_right_mono) simp_all
  with assms(1) have "0 \<le> i * every - 1" by simp
  with i have idx: "py_index ls (i * every - 1) = Inr (ls ! nat (i * every - 1))"
    by (simp add: py_index_def)
  have IH: "remove_worse E every ls this_loss indices fs' =
           fs' - {Epoch_file (i * every) | i. i \<in> set indices \<and> ls ! nat (i * every - 1) > this_loss}" for fs'
    using Cons by simp
  show ?case
    using assms(2) by (auto simp add: idx IH Let_def)
qed


lemma files_after_write:
  assumes "save_every C \<noteq> 0" and "e mod save_every C = 0" and "e - save_every C > 0"
    and "\<not> makedirs_fails E" and "disk_free E = Some free"
    and "\<not> free < 1024 * 1024 * 1024 * 2"
    and "\<not> saving_line_fails E" and "\<not> save_model_fails E"
    and "losses (model w) \<noteq> []"
  shows "files (save_and_prune C E (Epoch e) w) =
           remove_worse E (save_every C) (losses (model w)) (last (losses (model w)))
             (map int [0..<nat (e div save_every C)])
             (insert (if checkpoint_dir C \<noteq> None then Slot_file else Epoch_file e) (files w))"
  using assms
  by (simp add: save_and_prune_def save_model_def py_index_last Let_def
      del: remove_worse.simps)


text \<open>
  The files after a periodic write that succeeds: the new file is added, and of the
  files of the earlier multiples of \<open>save_every\<close> exactly those with a greater recorded
  loss are gone.
\<close>

lemma files_after_periodic_write:
  assumes every: "0 < save_every C" and periodic: "e mod save_every C = 0"
    and earlier: "e - save_every C > 0"
    and written: "\<not> makedirs_fails E" "disk_free E = Some free"
      "\<not> free < 1024 * 1024 * 1024 * 2" "\<not> saving_line_fails E" "\<not> save_model_fails E"
    and removable: "\<forall>file. \<not> remove_fails E file"
    and recorded: "int (length (losses (model w))) = e"
  shows "files (save_and_prune C E (Epoch e) w) =
           insert (if checkpoint_dir C \<noteq> None then Slot_file else Epoch_file e) (files w)
           - {Epoch_file (i * save_every C) | i.
                1 \<le> i \<and> i < e div save_every C
                \<and> losses (model w) ! nat (i * save_every C - 1) > last (losses (model w))}"
proof -
  let ?ls = "losses (model w)"
  let ?n = "nat (e div save_every C)"
  let ?fs = "insert (if checkpoint_dir C \<noteq> None then Slot_file else Epoch_file e) (files w)"
  have e: "0 < e" using every earlier by simp
  then have ne: "?ls \<noteq> []" using recorded by auto
  have n: "0 < ?n" using every earlier
    by (simp add: pos_imp_zdiv_pos_iff)
  have "files (save_and_prune C E (Epoch e) w) =
      remove_worse E (save_every C) ?ls (last ?ls) (map int [0..<?n]) ?fs"
    using every periodic earlier written ne by (intro files_after_write) simp_all
  also have "\<dots> = remove_worse E (save_every C) ?ls (last ?ls) (map int [1..<?n]) ?fs"
    using remove_worse_bucket_zero [OF py_index_last [OF ne]]
    by (simp add: range_from_one [OF n] del: remove_worse.simps)
  also have "\<dots> = ?fs - {Epoch_file (i * save_every C) | i.
      i \<in> set (map int [1..<?n]) \<and> ?ls ! nat (i * save_every C - 1) > last ?ls}"
  proof (rule remove_worse_later_buckets [OF every removable], rule ballI)
    fix i assume "i \<in> set (map int [1..<?n])"
    then have i: "1 \<le> i" "i < e div save_every C" by auto
    then have "i * save_every C \<le> (e div save_every C) * save_every C"
      using every by (intro mult_right_mono) simp_all
    also have "\<dots> = e" using periodic by (simp add: mod_eq_0_iff_dvd)
    finally show "1 \<le> i \<and> i * save_every C \<le> int (length ?ls)"
      using i recorded by simp
  qed
  also have "{Epoch_file (i * save_every C) | i.
      i \<in> set (map int [1..<?n]) \<and> ?ls ! nat (i * save_every C - 1) > last ?ls}
    = {Epoch_file (i * save_every C) | i.
        1 \<le> i \<and> i < e div save_every C
        \<and> ?ls ! nat (i * save_every C - 1) > last ?ls}"
  proof -
    have "i \<in> set (map int [1..<?n]) \<longleftrightarrow> 1 \<le> i \<and> i < e div save_every C" for i
    proof
      assume "i \<in> set (map int [1..<?n])"
      then show "1 \<le> i \<and> i < e div save_every C" by auto
    next
      assume a: "1 \<le> i \<and> i < e div save_every C"
      then have "nat i \<in> set [1..<?n]" by auto
      then have "int (nat i) \<in> int ` set [1..<?n]" by (rule imageI)
      with a show "i \<in> set (map int [1..<?n])" by simp
    qed
    then show ?thesis by simp
  qed
  finally show ?thesis .
qed


lemma save_callback_reached:
  assumes "report_epoch C E (Epoch e) w = None"
  shows "\<exists>w'. save_callback C E (Epoch e) w = (save_and_prune C E (Epoch e) w', None)
           \<and> losses (model w') = losses (model w) \<and> files w' = files w"
proof -
  define w0 where "w0 = (case last_saved_epoch (model w) of
                 None \<Rightarrow> w\<lparr>model := (model w)\<lparr>last_saved_epoch := Some 0\<rparr>\<rparr>
               | Some _ \<Rightarrow> w)"
  let ?w1 = "write_epoch_line E (Epoch e) w0"
  have f0: "files w0 = files w" "losses (model w0) = losses (model w)"
    by (simp_all add: w0_def split: option.splits)
  have "report_epoch C E (Epoch e) ?w1 = report_epoch C E (Epoch e) w"
    by (rule report_epoch_reads)
      (simp_all add: write_epoch_line_frame w0_def split: option.splits)
  then have "report_epoch C E (Epoch e) ?w1 = None"
    using assms by simp
  then have "save_callback C E (Epoch e) w = (save_and_prune C E (Epoch e) ?w1, None)"
    by (simp add: save_callback_def w0_def [symmetric] Let_def)
  moreover have "losses (model ?w1) = losses (model w)" "files ?w1 = files w"
    using f0 write_epoch_line_frame [of E "Epoch e" w0] by simp_all
  ultimately show ?thesis by blast
qed

text \<open>
  C1: after a successful periodic write at an integer epoch \<open>e\<close> with
  \<open>e - save_every > 0\<close>, for every earlier retention bucket \<open>i * save_every\<close> with
  \<open>0 \<le> i < e div save_every\<close> whose checkpoint file exists, that file is deleted if and
  only if the bucket's recorded loss (the entry of \<^verbatim>\<open>model.losses\<close> for that epoch) is
  strictly greater than the current loss, the last entry. The write succeeds: the
  callback reaches the save block, the directory, the disk check, the log line and
  \<^verbatim>\<open>save_model\<close> go through, and \<^verbatim>\<open>os.remove\<close> does not fail. The model holds one
  loss per epoch. No file of epoch 0 exists: the callback writes an epoch's file only
  when called with that integer epoch, and the epochs start at 1 (\<^verbatim>\<open>"start"\<close> returns
  before any write); so the existing earlier files are those of the buckets from 1 on.

  The two examples, with the losses as those of epochs 1, 2, \<open>\<dots>\<close>: for \<open>[10, 8, 9, 5]\<close>
  and \<open>save_every = 1\<close>, after the write of the fourth checkpoint (loss 5) the three
  earlier files are deleted; for \<open>[5, 8]\<close>, after the write of the second (loss 8) the
  first (loss 5) is retained.
\<close>

theorem pruning_after_periodic_write:
  assumes every: "0 < save_every C" and periodic: "e mod save_every C = 0"
    and earlier: "e - save_every C > 0"
    and reached: "report_epoch C E (Epoch e) w = None"
    and written: "\<not> makedirs_fails E" "disk_free E = Some free"
      "\<not> free < 1024 * 1024 * 1024 * 2" "\<not> saving_line_fails E" "\<not> save_model_fails E"
    and removable: "\<forall>file. \<not> remove_fails E file"
    and recorded: "int (length (losses (model w))) = e"
    and no_epoch_0: "Epoch_file 0 \<notin> files w"
  shows "snd (save_callback C E (Epoch e) w) = None
     \<and> (if checkpoint_dir C \<noteq> None then Slot_file else Epoch_file e)
         \<in> files (fst (save_callback C E (Epoch e) w))
     \<and> (\<forall>i. 0 \<le> i \<and> i < e div save_every C \<and> Epoch_file (i * save_every C) \<in> files w \<longrightarrow>
           (Epoch_file (i * save_every C) \<notin> files (fst (save_callback C E (Epoch e) w))
             \<longleftrightarrow> losses (model w) ! nat (i * save_every C - 1) > last (losses (model w))))"
proof -
  let ?every = "save_every C"
  let ?ls = "losses (model w)"
  let ?new = "if checkpoint_dir C \<noteq> None then Slot_file else Epoch_file e"
  let ?removed = "{Epoch_file (i * ?every) | i.
      1 \<le> i \<and> i < e div ?every \<and> ?ls ! nat (i * ?every - 1) > last ?ls}"
  obtain w' where cb: "save_callback C E (Epoch e) w = (save_and_prune C E (Epoch e) w', None)"
    and same: "losses (model w') = ?ls" "files w' = files w"
    using save_callback_reached [OF reached] by blast
  have after: "files (fst (save_callback C E (Epoch e) w)) = insert ?new (files w) - ?removed"
    using files_after_periodic_write [of C e E free w'] every periodic earlier written
      removable recorded same
    by (simp add: cb)
  have whole: "(e div ?every) * ?every = e"
    using periodic by (simp add: mod_eq_0_iff_dvd)
  have below: "i * ?every < e" if "i < e div ?every" for i
  proof -
    have "i * ?every < (e div ?every) * ?every"
      using that every by (intro mult_strict_right_mono) simp_all
    then show ?thesis using whole by simp
  qed
  have new: "?new \<notin> ?removed"
    using below by auto
  have bucket: "Epoch_file (i * ?every) \<notin> insert ?new (files w) - ?removed
      \<longleftrightarrow> ?ls ! nat (i * ?every - 1) > last ?ls"
    if i: "0 \<le> i" "i < e div ?every" "Epoch_file (i * ?every) \<in> files w" for i
  proof -
    have "i \<noteq> 0" using i(3) no_epoch_0 by auto
    then have "1 \<le> i" using i(1) by simp
    have "Epoch_file (i * ?every) \<in> ?removed \<longleftrightarrow> ?ls ! nat (i * ?every - 1) > last ?ls"
      using \<open>1 \<le> i\<close> i(2) every by auto
    then show ?thesis using i(3) by blast
  qed
  have c1: "snd (save_callback C E (Epoch e) w) = None"
    by (simp add: cb)
  have c2: "?new \<in> files (fst (save_callback C E (Epoch e) w))"
    unfolding after using new by blast
  have c3: "\<forall>i. 0 \<le> i \<and> i < e div ?every \<and> Epoch_file (i * ?every) \<in> files w \<longrightarrow>
      (Epoch_file (i * ?every) \<notin> files (fst (save_callback C E (Epoch e) w))
        \<longleftrightarrow> ?ls ! nat (i * ?every - 1) > last ?ls)"
    unfolding after using bucket by blast
  from c1 c2 c3 show ?thesis by (intro conjI)
qed

theorem pruning_after_periodic_write_witness:
  "Epoch_file 1 \<notin> files (fst (save_callback \<lparr>save_every = 1, checkpoint_dir = None, no_mlflow = True\<rparr>
        (example_env 3000000000) (Epoch 4)
        \<lparr>model = \<lparr>last_saved_epoch = Some 0, losses = [10, 8, 9, 5],
                  learning_rates = [1, 1, 1, 1], wallclock_times = [60, 120, 180, 240]\<rparr>,
         config = Map.empty, files = {Epoch_file 1, Epoch_file 2, Epoch_file 3}, log_lines = []\<rparr>))
   \<and> Epoch_file 2 \<notin> files (fst (save_callback \<lparr>save_every = 1, checkpoint_dir = None, no_mlflow = True\<rparr>
        (example_env 3000000000) (Epoch 4)
        \<lparr>model = \<lparr>last_saved_epoch = Some 0, losses = [10, 8, 9, 5],
                  learning_rates = [1, 1, 1, 1], wallclock_times = [60, 120, 180, 240]\<rparr>,
         config = Map.empty, files = {Epoch_file 1, Epoch_file 2, Epoch_file 3}, log_lines = []\<rparr>))
   \<and> Epoch_file 3 \<notin> files (fst (save_callback \<lparr>save_every = 1, checkpoint_dir = None, no_mlflow = True\<rparr>
        (example_env 3000000000) (Epoch 4)
        \<lparr>model = \<lparr>last_saved_epoch = Some 0, losses = [10, 8, 9, 5],
                  learning_rates = [1, 1, 1, 1], wallclock_times = [60, 120, 180, 240]\<rparr>,
         config = Map.empty, files = {Epoch_file 1, Epoch_file 2, Epoch_file 3}, log_lines = []\<rparr>))
   \<and> Epoch_file 4 \<in> files (fst (save_callback \<lparr>save_every = 1, checkpoint_dir = None, no_mlflow = True\<rparr>
        (example_env 3000000000) (Epoch 4)
        \<lparr>model = \<lparr>last_saved_epoch = Some 0, losses = [10, 8, 9, 5],
                  learning_rates = [1, 1, 1, 1], wallclock_times = [60, 120, 180, 240]\<rparr>,
         config = Map.empty, files = {Epoch_file 1, Epoch_file 2, Epoch_file 3}, log_lines = []\<rparr>))
   \<and> Epoch_file 1 \<in> files (fst (save_callback \<lparr>save_every = 1, checkpoint_dir = None, no_mlflow = True\<rparr>
        (example_env 3000000000) (Epoch 2)
        \<lparr>model = \<lparr>last_saved_epoch = Some 0, losses = [5, 8],
                  learning_rates = [1, 1], wallclock_times = [60, 120]\<rparr>,
         config = Map.empty, files = {Epoch_file 1}, log_lines = []\<rparr>))"
proof -
  let ?C = "\<lparr>save_every = 1, checkpoint_dir = None, no_mlflow = True\<rparr>"
  let ?E = "example_env 3000000000"
  let ?w4 = "\<lparr>model = \<lparr>last_saved_epoch = Some 0, losses = [10, 8, 9, 5],
                  learning_rates = [1, 1, 1, 1], wallclock_times = [60, 120, 180, 240]\<rparr>,
         config = Map.empty, files = {Epoch_file 1, Epoch_file 2, Epoch_file 3}, log_lines = []\<rparr>"
  let ?w2 = "\<lparr>model = \<lparr>last_saved_epoch = Some 0, losses = [5, 8],
                  learning_rates = [1, 1], wallclock_times = [60, 120]\<rparr>,
         config = Map.empty, files = {Epoch_file 1}, log_lines = []\<rparr>"
  have env: "\<not> makedirs_fails ?E" "disk_free ?E = Some 3000000000"
    "\<not> (3000000000::nat) < 1024 * 1024 * 1024 * 2" "\<not> saving_line_fails ?E"
    "\<not> save_model_fails ?E" "\<forall>file. \<not> remove_fails ?E file"
    by (simp_all add: example_env_def)
  have r4: "report_epoch ?C ?E (Epoch 4) ?w4 = None"
    by (simp add: report_epoch_def example_env_def)
  have r2: "report_epoch ?C ?E (Epoch 2) ?w2 = None"
    by (simp add: report_epoch_def example_env_def)
  have four: "snd (save_callback ?C ?E (Epoch 4) ?w4) = None
     \<and> (if checkpoint_dir ?C \<noteq> None then Slot_file else Epoch_file 4)
         \<in> files (fst (save_callback ?C ?E (Epoch 4) ?w4))
     \<and> (\<forall>i. 0 \<le> i \<and> i < 4 div save_every ?C \<and> Epoch_file (i * save_every ?C) \<in> files ?w4 \<longrightarrow>
           (Epoch_file (i * save_every ?C) \<notin> files (fst (save_callback ?C ?E (Epoch 4) ?w4))
             \<longleftrightarrow> losses (model ?w4) ! nat (i * save_every ?C - 1) > last (losses (model ?w4))))"
    by (rule pruning_after_periodic_write [OF _ _ _ r4 env]) simp_all
  have two: "snd (save_callback ?C ?E (Epoch 2) ?w2) = None
     \<and> (if checkpoint_dir ?C \<noteq> None then Slot_file else Epoch_file 2)
         \<in> files (fst (save_callback ?C ?E (Epoch 2) ?w2))
     \<and> (\<forall>i. 0 \<le> i \<and> i < 2 div save_every ?C \<and> Epoch_file (i * save_every ?C) \<in> files ?w2 \<longrightarrow>
           (Epoch_file (i * save_every ?C) \<notin> files (fst (save_callback ?C ?E (Epoch 2) ?w2))
             \<longleftrightarrow> losses (model ?w2) ! nat (i * save_every ?C - 1) > last (losses (model ?w2))))"
    by (rule pruning_after_periodic_write [OF _ _ _ r2 env]) simp_all
  from four have a: "\<And>i. 0 \<le> i \<and> i < 4 div save_every ?C \<and> Epoch_file (i * save_every ?C) \<in> files ?w4 \<longrightarrow>
           (Epoch_file (i * save_every ?C) \<notin> files (fst (save_callback ?C ?E (Epoch 4) ?w4))
             \<longleftrightarrow> losses (model ?w4) ! nat (i * save_every ?C - 1) > last (losses (model ?w4)))"
    by blast
  from two have b: "\<And>i. 0 \<le> i \<and> i < 2 div save_every ?C \<and> Epoch_file (i * save_every ?C) \<in> files ?w2 \<longrightarrow>
           (Epoch_file (i * save_every ?C) \<notin> files (fst (save_callback ?C ?E (Epoch 2) ?w2))
             \<longleftrightarrow> losses (model ?w2) ! nat (i * save_every ?C - 1) > last (losses (model ?w2)))"
    by blast
  from four have new: "Epoch_file 4 \<in> files (fst (save_callback ?C ?E (Epoch 4) ?w4))"
    by simp
  show ?thesis
    using a [of 1] a [of 2] a [of 3] b [of 1] new by simp
qed

end
